theory Spec2Isabelle
  imports Complex_Main "HOL-Library.Char_ord" "HOL-Library.List_Lexorder" "HOL-Library.Multiset"
begin

section \<open>Payroll system: data model\<close>

text \<open>
  The program is a single C++ file, \<^verbatim>\<open>PayrollSystem.cpp\<close>. Its two classes are embedded
  as records, its member functions as functions that take the object and return the
  updated object.

  \<^item> \<^verbatim>\<open>std::string\<close> is \<open>string\<close>; the order of \<^verbatim>\<open>std::string\<close> (bytewise
    lexicographic) is the order of \<open>char list\<close>.
  \<^item> \<^verbatim>\<open>std::map<K, V>\<close> is an association list kept in ascending key order, the order
    in which the program iterates over it.
  \<^item> \<^verbatim>\<open>std::set<string>\<close> is a \<open>string set\<close>, \<^verbatim>\<open>std::vector\<close> a list.
  \<^item> \<^verbatim>\<open>double\<close> is the type \<open>rat\<close>: amounts are exact rationals, and the rounding of
    binary floating point is not represented. Every statement below about amounts
    is a statement about the sequence of arithmetic operations the program performs.
\<close>

type_synonym double = rat

subsection \<open>Constants of namespace Payroll\<close>

definition TAX_FREE_ALLOWANCE :: double where
  "TAX_FREE_ALLOWANCE = 12570.0"

definition TAX_RATE :: double where
  "TAX_RATE = 0.20"

definition MONTHS_IN_YEAR :: int where
  "MONTHS_IN_YEAR = 12"

subsection \<open>std::map as a key-ordered association list\<close>

text \<open>\<^verbatim>\<open>m.find(k)\<close>: the value stored under \<open>k\<close>, or \<open>None\<close> for \<^verbatim>\<open>m.end()\<close>.\<close>

definition map_find :: "('k \<times> 'v) list \<Rightarrow> 'k \<Rightarrow> 'v option" where
  "map_find m k = map_of m k"

text \<open>\<^verbatim>\<open>m.count(k)\<close>, read as a truth value.\<close>

definition map_count :: "('k \<times> 'v) list \<Rightarrow> 'k \<Rightarrow> bool" where
  "map_count m k \<longleftrightarrow> map_find m k \<noteq> None"

text \<open>\<^verbatim>\<open>m[k] = v\<close>: overwrite the entry of \<open>k\<close>, or insert it at its place in key order.\<close>

fun map_assign :: "'k::linorder \<Rightarrow> 'v \<Rightarrow> ('k \<times> 'v) list \<Rightarrow> ('k \<times> 'v) list" where
  "map_assign k v [] = [(k, v)]"
| "map_assign k v ((k', v') # m) =
     (if k < k' then (k, v) # (k', v') # m
      else if k = k' then (k, v) # m
      else (k', v') # map_assign k v m)"

text \<open>\<^verbatim>\<open>m.erase(k)\<close>.\<close>

definition map_erase :: "'k \<Rightarrow> ('k \<times> 'v) list \<Rightarrow> ('k \<times> 'v) list" where
  "map_erase k m = filter (\<lambda>kv. fst kv \<noteq> k) m"

subsection \<open>Utility functions\<close>

definition is_blank :: "char \<Rightarrow> bool" where
  "is_blank c \<longleftrightarrow> c \<in> set '' \<newline>'' \<or> c = CHR 0x09 \<or> c = CHR 0x0D"

text \<open>\<^verbatim>\<open>trim\<close>: drop the blanks (space, tab, CR, LF) at both ends.\<close>

definition trim :: "string \<Rightarrow> string" where
  "trim s = rev (dropWhile is_blank (rev (dropWhile is_blank s)))"

text \<open>\<^verbatim>\<open>::toupper\<close> in the C locale.\<close>

definition toupper :: "char \<Rightarrow> char" where
  "toupper c =
     (if CHR ''a'' \<le> c \<and> c \<le> CHR ''z'' then char_of (of_char c - (32::nat)) else c)"

definition toUpper :: "string \<Rightarrow> string" where
  "toUpper s = map toupper s"

definition tolower :: "char \<Rightarrow> char" where
  "tolower c =
     (if CHR ''A'' \<le> c \<and> c \<le> CHR ''Z'' then char_of (of_char c + (32::nat)) else c)"

subsection \<open>class Employee\<close>

record Employee =
  emp_id :: string
  name :: string
  hourlyRate :: double
  hoursWorked :: "(string \<times> double) list"

text \<open>The constructor \<^verbatim>\<open>Employee(_id, _name, _rate)\<close>: no hours recorded.\<close>

definition mkEmployee :: "string \<Rightarrow> string \<Rightarrow> double \<Rightarrow> Employee" where
  "mkEmployee i n r = \<lparr>emp_id = i, name = n, hourlyRate = r, hoursWorked = []\<rparr>"

definition getGrossPay :: "Employee \<Rightarrow> string \<Rightarrow> double" where
  "getGrossPay e month =
     (case map_find (hoursWorked e) month of
        None \<Rightarrow> 0
      | Some h \<Rightarrow> hourlyRate e * h)"

definition getTax :: "Employee \<Rightarrow> string \<Rightarrow> double" where
  "getTax e month =
     (let gross = getGrossPay e month;
          annual = gross * of_int MONTHS_IN_YEAR;
          taxable = annual - TAX_FREE_ALLOWANCE;
          taxable = (if taxable < 0 then 0 else taxable);
          annualTax = taxable * TAX_RATE
      in annualTax / of_int MONTHS_IN_YEAR)"

definition getNetPay :: "Employee \<Rightarrow> string \<Rightarrow> double" where
  "getNetPay e month = getGrossPay e month - getTax e month"

subsection \<open>Input: registry file, pay files, console\<close>

text \<open>
  A line of the registry file, as \<^verbatim>\<open>iss >> id >> name >> rate\<close> reads it: the
  extraction fails (the line is skipped) or yields the three fields.
\<close>

datatype reg_line = RegMalformed | RegRecord string string double

text \<open>A line of a pay file, as \<^verbatim>\<open>iss >> id >> hours\<close> reads it.\<close>

datatype pay_line = PayMalformed | PayRecord string double

text \<open>
  The console input, line by line. \<^verbatim>\<open>cin >> choice\<close> skips white space, line
  ends included, and reads one character; \<^verbatim>\<open>cin.ignore\<close> then drops the rest of that
  line. At the end of the input the extraction fails for ever, and the loop of
  \<^verbatim>\<open>getYesNoInput\<close> never returns: that is the value \<open>None\<close>.
\<close>

definition isspace :: "char \<Rightarrow> bool" where
  "isspace c \<longleftrightarrow> is_blank c \<or> c = CHR 0x0B \<or> c = CHR 0x0C"

definition YES :: char where
  "YES = CHR ''y''"

definition NO :: char where
  "NO = CHR ''n''"

fun getYesNoInput :: "string list \<Rightarrow> (char \<times> string list) option" where
  "getYesNoInput [] = None"
| "getYesNoInput (l # ls) =
     (case dropWhile isspace l of
        [] \<Rightarrow> getYesNoInput ls
      | c # _ \<Rightarrow>
          (let choice = tolower c
           in if choice = YES \<or> choice = NO then Some (choice, ls) else getYesNoInput ls))"

text \<open>\<^verbatim>\<open>s.find(pat)\<close>: the first position at which \<open>pat\<close> occurs, \<open>None\<close> for \<^verbatim>\<open>npos\<close>.\<close>

fun str_find :: "string \<Rightarrow> string \<Rightarrow> nat option" where
  "str_find [] pat = (if pat = [] then Some 0 else None)"
| "str_find (c # s) pat =
     (if take (length pat) (c # s) = pat then Some 0 else map_option Suc (str_find s pat))"

definition TXT :: string where
  "TXT = ''.txt''"

subsection \<open>class PayrollSystem\<close>

record PayrollSystem =
  employees :: "(string \<times> Employee) list"
  loadedPayFiles :: "string set"
  processedMonths :: "string list"
  errors :: "(string \<times> string) list"

text \<open>The default constructor.\<close>

definition newPayrollSystem :: PayrollSystem where
  "newPayrollSystem =
     \<lparr>employees = [], loadedPayFiles = {}, processedMonths = [], errors = []\<rparr>"

text \<open>The loop of \<^verbatim>\<open>loadEmployees\<close> over the lines of the registry file.\<close>

fun loadEmployees_lines ::
  "reg_line list \<Rightarrow> (string \<times> Employee) list \<Rightarrow> (string \<times> Employee) list" where
  "loadEmployees_lines [] emps = emps"
| "loadEmployees_lines (RegMalformed # ls) emps = loadEmployees_lines ls emps"
| "loadEmployees_lines (RegRecord i n rate # ls) emps =
     (let i' = toUpper (trim i); n' = trim n
      in loadEmployees_lines ls (map_assign i' (mkEmployee i' n' rate) emps))"

text \<open>\<^verbatim>\<open>loadEmployees\<close>; the file is \<open>None\<close> when it cannot be opened.\<close>

definition loadEmployees :: "reg_line list option \<Rightarrow> PayrollSystem \<Rightarrow> bool \<times> PayrollSystem" where
  "loadEmployees file s =
     (case file of
        None \<Rightarrow> (False, s)
      | Some ls \<Rightarrow> (True, s\<lparr>employees := loadEmployees_lines ls (employees s)\<rparr>))"

text \<open>
  \<^verbatim>\<open>removePayRecordsForMonth\<close>. The loop erases the month from every employee;
  \<^verbatim>\<open>std::find\<close> on the vector followed by \<^verbatim>\<open>erase\<close> of the position found removes
  the first occurrence of the month, which is \<open>remove1\<close>.
\<close>

definition removePayRecordsForMonth :: "string \<Rightarrow> PayrollSystem \<Rightarrow> PayrollSystem" where
  "removePayRecordsForMonth month s =
     s\<lparr>employees :=
          map (\<lambda>(k, e). (k, e\<lparr>hoursWorked := map_erase month (hoursWorked e)\<rparr>)) (employees s),
        processedMonths := remove1 month (processedMonths s)\<rparr>"

text \<open>
  \<^verbatim>\<open>logErrors\<close> appends the collected errors to the file errors.txt and clears them.
  The file is outside the object: the function returns what it appends.
\<close>

definition logErrors :: "PayrollSystem \<Rightarrow> (string \<times> string) list \<times> PayrollSystem" where
  "logErrors s = (if errors s = [] then ([], s) else (errors s, s\<lparr>errors := []\<rparr>))"

text \<open>
  \<^verbatim>\<open>employees[id].hoursWorked[upMonth] = hours\<close>. The first subscript is reached only
  when \<^verbatim>\<open>employees.count(id)\<close> holds, so it selects the existing entry.
\<close>

fun set_hours ::
  "string \<Rightarrow> string \<Rightarrow> double \<Rightarrow> (string \<times> Employee) list \<Rightarrow> (string \<times> Employee) list" where
  "set_hours i month hours [] = []"
| "set_hours i month hours ((k, e) # m) =
     (if k = i then (k, e\<lparr>hoursWorked := map_assign month hours (hoursWorked e)\<rparr>) # m
      else (k, e) # set_hours i month hours m)"

definition invalid_id_message :: "string \<Rightarrow> string" where
  "invalid_id_message i = i @ '' is not a valid employee ID number.''"

text \<open>The loop of \<^verbatim>\<open>loadPayFile\<close> over the lines of the pay file.\<close>

fun processPayLines ::
  "string \<Rightarrow> string \<Rightarrow> pay_line list \<Rightarrow> PayrollSystem \<Rightarrow> PayrollSystem" where
  "processPayLines filename upMonth [] s = s"
| "processPayLines filename upMonth (PayMalformed # ls) s =
     processPayLines filename upMonth ls s"
| "processPayLines filename upMonth (PayRecord i hours # ls) s =
     (let i' = toUpper (trim i)
      in if map_count (employees s) i'
         then processPayLines filename upMonth ls
                (s\<lparr>employees := set_hours i' upMonth hours (employees s)\<rparr>)
         else processPayLines filename upMonth ls
                (s\<lparr>errors := errors s @ [(filename, invalid_id_message i')]\<rparr>))"

text \<open>
  What a call of \<^verbatim>\<open>loadPayFile\<close> yields: the value returned, the out-parameter, what
  the call appended to errors.txt, the console input left, and the object afterwards.
\<close>

record load_result =
  ret :: bool
  outMonth :: string
  logged :: "(string \<times> string) list"
  stdin_rest :: "string list"
  sys :: PayrollSystem

text \<open>
  The second half of \<^verbatim>\<open>loadPayFile\<close>, from the opening of the file on. The file
  system maps a file name to the lines of the file, \<open>None\<close> when it cannot be opened.
\<close>

definition readPayFile ::
  "(string \<Rightarrow> pay_line list option) \<Rightarrow> string \<Rightarrow> string \<Rightarrow> string list \<Rightarrow> PayrollSystem
     \<Rightarrow> load_result" where
  "readPayFile fs filename upMonth inp s =
     (case fs filename of
        None \<Rightarrow>
          (let err = ''Pay file '' @ filename @ '' could not be found.'';
               s1 = s\<lparr>errors := errors s @ [(filename, err)]\<rparr>;
               (out, s2) = logErrors s1
           in \<lparr>ret = False, outMonth = upMonth, logged = out, stdin_rest = inp, sys = s2\<rparr>)
      | Some ls \<Rightarrow>
          (let s1 = processPayLines filename upMonth ls s;
               s2 = s1\<lparr>loadedPayFiles := insert upMonth (loadedPayFiles s1),
                       processedMonths := processedMonths s1 @ [upMonth]\<rparr>;
               (out, s3) = logErrors s2
           in \<lparr>ret = True, outMonth = upMonth, logged = out, stdin_rest = inp, sys = s3\<rparr>))"

text \<open>
  The month key that \<^verbatim>\<open>loadPayFile\<close> derives from a file name: the part before the
  first \<^verbatim>\<open>.txt\<close> (all of it when there is none), in upper case.
\<close>

definition month_key :: "string \<Rightarrow> string" where
  "month_key filename =
     (let month = (case str_find filename TXT of None \<Rightarrow> filename | Some n \<Rightarrow> take n filename)
      in toUpper month)"

definition loadPayFile ::
  "(string \<Rightarrow> pay_line list option) \<Rightarrow> string \<Rightarrow> bool \<Rightarrow> string list \<Rightarrow> PayrollSystem
     \<Rightarrow> load_result option" where
  "loadPayFile fs filename replace inp s =
     (let upMonth = month_key filename
      in if upMonth \<in> loadedPayFiles s \<and> \<not> replace then
           (case getYesNoInput inp of
              None \<Rightarrow> None
            | Some (choice, inp') \<Rightarrow>
                if choice = YES then
                  (let s1 = removePayRecordsForMonth upMonth s;
                       s2 = s1\<lparr>loadedPayFiles := loadedPayFiles s1 - {upMonth}\<rparr>
                   in Some (readPayFile fs filename upMonth inp' s2))
                else
                  Some \<lparr>ret = False, outMonth = upMonth, logged = [], stdin_rest = inp',
                        sys = s\<rparr>)
         else Some (readPayFile fs filename upMonth inp s))"

subsection \<open>Reachable states\<close>

text \<open>
  The states of the object after any sequence of calls of its three mutating public
  member functions, with any arguments, files and console input.
\<close>

inductive reachable :: "PayrollSystem \<Rightarrow> bool" where
  reach_new: "reachable newPayrollSystem"
| reach_loadEmployees: "reachable s \<Longrightarrow> reachable (snd (loadEmployees file s))"
| reach_loadPayFile:
    "reachable s \<Longrightarrow> loadPayFile fs filename replace inp s = Some r \<Longrightarrow> reachable (sys r)"
| reach_remove: "reachable s \<Longrightarrow> reachable (removePayRecordsForMonth month s)"

subsection \<open>Sorted listing of a month\<close>

datatype sort_criterion = SORT_HOURLY_RATE | SORT_HOURS_WORKED | SORT_NET_PAY

text \<open>The employees who worked in the month, in the order of the map.\<close>

definition emps_for :: "PayrollSystem \<Rightarrow> string \<Rightarrow> Employee list" where
  "emps_for s month = [e. (k, e) \<leftarrow> employees s, map_count (hoursWorked e) month]"

text \<open>
  The three comparison functions passed to \<^verbatim>\<open>sort\<close>. \<^verbatim>\<open>hoursWorked.at(month)\<close>
  throws for a missing key; the list that is sorted holds only employees that have the
  key (lemma \<open>emps_for_have_month\<close> below), so the last case is never taken.
\<close>

fun comparator :: "sort_criterion \<Rightarrow> string \<Rightarrow> Employee \<Rightarrow> Employee \<Rightarrow> bool" where
  "comparator SORT_HOURLY_RATE month a b \<longleftrightarrow> hourlyRate a > hourlyRate b"
| "comparator SORT_HOURS_WORKED month a b \<longleftrightarrow>
     (case (map_find (hoursWorked a) month, map_find (hoursWorked b) month) of
        (Some x, Some y) \<Rightarrow> x > y
      | _ \<Rightarrow> False)"
| "comparator SORT_NET_PAY month a b \<longleftrightarrow> getNetPay a month > getNetPay b month"

text \<open>
  \<^verbatim>\<open>std::sort\<close> belongs to the C++ library, not to the program. Its contract: the
  result is a rearrangement of the input in which no element is ordered by the
  comparison before an element that precedes it. The order of elements that the
  comparison does not separate is left open, so the model is a relation between the
  input and the admissible results.
\<close>

definition std_sort :: "('a \<Rightarrow> 'a \<Rightarrow> bool) \<Rightarrow> 'a list \<Rightarrow> 'a list \<Rightarrow> bool" where
  "std_sort cmp xs ys \<longleftrightarrow> mset ys = mset xs \<and> sorted_wrt (\<lambda>a b. \<not> cmp b a) ys"

text \<open>The list that \<^verbatim>\<open>sortEmployeesMenu\<close> prints for a month and a criterion.\<close>

definition sortEmployees ::
  "PayrollSystem \<Rightarrow> string \<Rightarrow> sort_criterion \<Rightarrow> Employee list \<Rightarrow> bool" where
  "sortEmployees s month crit out \<longleftrightarrow> std_sort (comparator crit month) (emps_for s month) out"

text \<open>The value an employee is ranked by, for stating the order of the listing.\<close>

fun criterion_value :: "sort_criterion \<Rightarrow> string \<Rightarrow> Employee \<Rightarrow> double option" where
  "criterion_value SORT_HOURLY_RATE month e = Some (hourlyRate e)"
| "criterion_value SORT_HOURS_WORKED month e = map_find (hoursWorked e) month"
| "criterion_value SORT_NET_PAY month e = Some (getNetPay e month)"

subsection \<open>Properties of states used in the statements\<close>

text \<open>Every month with an hours entry in some employee is a processed month.\<close>

definition hours_processed :: "PayrollSystem \<Rightarrow> bool" where
  "hours_processed s \<longleftrightarrow>
     (\<forall>(k, e) \<in> set (employees s). \<forall>m. map_count (hoursWorked e) m \<longrightarrow>
        m \<in> set (processedMonths s) \<and> m \<in> loadedPayFiles s)"

text \<open>The identifiers of the pay records of a file that are not in the registry, in file order.\<close>

definition unknown_ids :: "(string \<times> Employee) list \<Rightarrow> pay_line list \<Rightarrow> string list" where
  "unknown_ids emps ls =
     [toUpper (trim i). PayRecord i h \<leftarrow> ls, \<not> map_count emps (toUpper (trim i))]"

text \<open>The hours that the records of a file give for an identifier, in file order.\<close>

definition hours_for :: "string \<Rightarrow> pay_line list \<Rightarrow> double list" where
  "hours_for k ls = [h. PayRecord i h \<leftarrow> ls, toUpper (trim i) = k]"

subsection \<open>Example data\<close>

definition example_registry :: "reg_line list" where
  "example_registry = [RegRecord ''E1'' ''Alice'' 15.00, RegRecord ''e2'' ''Bob'' 10.00]"

definition alice :: Employee where
  "alice = \<lparr>emp_id = ''E1'', name = ''Alice'', hourlyRate = 15, hoursWorked = []\<rparr>"

definition bob :: Employee where
  "bob = \<lparr>emp_id = ''E2'', name = ''Bob'', hourlyRate = 10, hoursWorked = []\<rparr>"

text \<open>The registry loaded, no month processed.\<close>

definition example_start :: PayrollSystem where
  "example_start =
     \<lparr>employees = [(''E1'', alice), (''E2'', bob)],
      loadedPayFiles = {}, processedMonths = [], errors = []\<rparr>"

text \<open>The file jan25.txt, in a first and in a second version, and a missing file.\<close>

definition fs_first :: "string \<Rightarrow> pay_line list option" where
  "fs_first f =
     (if f = ''jan25.txt''
      then Some [PayRecord ''E1'' 160, PayMalformed, PayRecord ''e2'' 100, PayRecord ''zzz'' 8]
      else None)"

definition fs_second :: "string \<Rightarrow> pay_line list option" where
  "fs_second f = (if f = ''jan25.txt'' then Some [PayRecord ''E1'' 150] else None)"

definition fs_none :: "string \<Rightarrow> pay_line list option" where
  "fs_none f = None"

text \<open>The state after jan25.txt, first version, has been processed from \<open>example_start\<close>.\<close>

definition example_jan :: PayrollSystem where
  "example_jan =
     \<lparr>employees = [(''E1'', alice\<lparr>hoursWorked := [(''JAN25'', 160)]\<rparr>),
                   (''E2'', bob\<lparr>hoursWorked := [(''JAN25'', 100)]\<rparr>)],
      loadedPayFiles = {''JAN25''}, processedMonths = [''JAN25''], errors = []\<rparr>"

text \<open>The second version processed alone from \<open>example_start\<close>.\<close>

definition example_second_alone :: PayrollSystem where
  "example_second_alone =
     \<lparr>employees = [(''E1'', alice\<lparr>hoursWorked := [(''JAN25'', 150)]\<rparr>), (''E2'', bob)],
      loadedPayFiles = {''JAN25''}, processedMonths = [''JAN25''], errors = []\<rparr>"

text \<open>The second version processed with \<^verbatim>\<open>replace = true\<close> from \<open>example_jan\<close>.\<close>

definition example_replaced :: PayrollSystem where
  "example_replaced =
     \<lparr>employees = [(''E1'', alice\<lparr>hoursWorked := [(''JAN25'', 150)]\<rparr>),
                   (''E2'', bob\<lparr>hoursWorked := [(''JAN25'', 100)]\<rparr>)],
      loadedPayFiles = {''JAN25''}, processedMonths = [''JAN25'', ''JAN25''], errors = []\<rparr>"

text \<open>Three employees, two of them with the same net pay in JAN25.\<close>

definition emp_a :: Employee where
  "emp_a = \<lparr>emp_id = ''A'', name = ''Ann'', hourlyRate = 10, hoursWorked = [(''JAN25'', 50)]\<rparr>"

definition emp_b :: Employee where
  "emp_b = \<lparr>emp_id = ''B'', name = ''Ben'', hourlyRate = 10, hoursWorked = [(''JAN25'', 80)]\<rparr>"

definition emp_c :: Employee where
  "emp_c = \<lparr>emp_id = ''C'', name = ''Cal'', hourlyRate = 8, hoursWorked = [(''JAN25'', 100)]\<rparr>"

definition tie_registry :: "reg_line list" where
  "tie_registry = [RegRecord ''A'' ''Ann'' 10, RegRecord ''B'' ''Ben'' 10, RegRecord ''C'' ''Cal'' 8]"

definition fs_tie :: "string \<Rightarrow> pay_line list option" where
  "fs_tie f =
     (if f = ''jan25.txt''
      then Some [PayRecord ''A'' 50, PayRecord ''B'' 80, PayRecord ''C'' 100]
      else None)"

definition tie_state :: PayrollSystem where
  "tie_state =
     \<lparr>employees = [(''A'', emp_a), (''B'', emp_b), (''C'', emp_c)],
      loadedPayFiles = {''JAN25''}, processedMonths = [''JAN25''], errors = []\<rparr>"

section \<open>Pay calculation\<close>



text \<open>
  Claim C9. For a month with no entry in the employee's hours map, gross pay, tax and net
  pay are all 0. The three functions are total: the lookup is \<^verbatim>\<open>find\<close>, which does not
  throw, so there is no error branch to model.
\<close>

theorem no_hours_zero_pay:
  assumes "map_find (hoursWorked e) month = None"
  shows "getGrossPay e month = 0 \<and> getTax e month = 0 \<and> getNetPay e month = 0"
proof -
  have g: "getGrossPay e month = 0"
    using assms by (simp add: getGrossPay_def)
  have t: "getTax e month = 0"
    by (simp add: getTax_def g Let_def TAX_FREE_ALLOWANCE_def)
  show ?thesis
    using g t by (simp add: getNetPay_def)
qed

theorem no_hours_zero_pay_witness:
  "map_find (hoursWorked ((mkEmployee ''E1'' ''Alice'' 15.00)
       \<lparr>hoursWorked := [(''JAN25'', 160)]\<rparr>)) ''FEB25'' = None
   \<and> getGrossPay ((mkEmployee ''E1'' ''Alice'' 15.00)
       \<lparr>hoursWorked := [(''JAN25'', 160)]\<rparr>) ''FEB25'' = 0
   \<and> getTax ((mkEmployee ''E1'' ''Alice'' 15.00)
       \<lparr>hoursWorked := [(''JAN25'', 160)]\<rparr>) ''FEB25'' = 0
   \<and> getNetPay ((mkEmployee ''E1'' ''Alice'' 15.00)
       \<lparr>hoursWorked := [(''JAN25'', 160)]\<rparr>) ''FEB25'' = 0"
proof -
  let ?e = "(mkEmployee ''E1'' ''Alice'' 15.00) \<lparr>hoursWorked := [(''JAN25'', 160)]\<rparr>"
  have h: "map_find (hoursWorked ?e) ''FEB25'' = None"
    by (simp add: map_find_def)
  from no_hours_zero_pay [OF h] h show ?thesis
    by simp
qed

end
